theory Spec2Isabelle
  imports Complex_Main "HOL-Library.AList"
begin

section \<open>Python values\<close>

text \<open>
  The manifest and every fingerprint are Python dictionaries read from and written to
  JSON. A dictionary is an association list in insertion order with distinct keys; a
  finite float is the rational it denotes. Python's \<open>None\<close> is \<open>JNull\<close>.
\<close>

datatype json =
    JNull
  | JBool bool
  | JInt int
  | JFloat rat
  | JStr string
  | JArr "json list"
  | JObj "(string \<times> json) list"

datatype py_error =
    AttributeError string
  | TypeError string
  | KeyError string
  | OSError string
  | JSONDecodeError string

fun str_of_error :: "py_error \<Rightarrow> string" where
  "str_of_error (AttributeError s) = s"
| "str_of_error (TypeError s) = s"
| "str_of_error (KeyError s) = s"
| "str_of_error (OSError s) = s"
| "str_of_error (JSONDecodeError s) = s"

fun type_name :: "json \<Rightarrow> string" where
  "type_name JNull = ''NoneType''"
| "type_name (JBool b) = ''bool''"
| "type_name (JInt i) = ''int''"
| "type_name (JFloat r) = ''float''"
| "type_name (JStr s) = ''str''"
| "type_name (JArr xs) = ''list''"
| "type_name (JObj kvs) = ''dict''"

definition no_attribute :: "json \<Rightarrow> string \<Rightarrow> py_error" where
  "no_attribute v a =
     AttributeError ([CHR 0x27] @ type_name v @ [CHR 0x27] @ '' object has no attribute ''
        @ [CHR 0x27] @ a @ [CHR 0x27])"

text \<open>\<open>d.get(k, default)\<close>: an \<open>AttributeError\<close> on anything that is not a dictionary.\<close>

fun py_get :: "json \<Rightarrow> string \<Rightarrow> json \<Rightarrow> py_error + json" where
  "py_get (JObj kvs) k dflt = Inr (case map_of kvs k of None \<Rightarrow> dflt | Some v \<Rightarrow> v)"
| "py_get v k dflt = Inl (no_attribute v ''get'')"



text \<open>Truth value of a Python object, as \<open>if not x\<close> reads it.\<close>

fun py_truthy :: "json \<Rightarrow> bool" where
  "py_truthy JNull = False"
| "py_truthy (JBool b) = b"
| "py_truthy (JInt i) = (i \<noteq> 0)"
| "py_truthy (JFloat r) = (r \<noteq> 0)"
| "py_truthy (JStr s) = (s \<noteq> [])"
| "py_truthy (JArr xs) = (xs \<noteq> [])"
| "py_truthy (JObj kvs) = (kvs \<noteq> [])"

text \<open>
  \<open>s == v\<close> for a Python \<open>str\<close> \<open>s\<close> and \<open>n == v\<close> for a Python \<open>int\<close> \<open>n\<close>,
  against any value read from JSON (\<open>True == 1\<close> and \<open>5 == 5.0\<close> hold in Python).
\<close>

fun py_eq_str :: "string \<Rightarrow> json \<Rightarrow> bool" where
  "py_eq_str s (JStr t) = (s = t)"
| "py_eq_str s v = False"

fun py_eq_int :: "int \<Rightarrow> json \<Rightarrow> bool" where
  "py_eq_int n (JInt m) = (n = m)"
| "py_eq_int n (JBool b) = (n = (if b then 1 else 0))"
| "py_eq_int n (JFloat r) = (of_int n = r)"
| "py_eq_int n v = False"

section \<open>Python strings and paths\<close>

text \<open>File names are ASCII strings: \<open>lower\<close> and \<open>isalnum\<close> act on ASCII letters and digits.\<close>

fun startswith :: "string \<Rightarrow> string \<Rightarrow> bool" where
  "startswith s [] = True"
| "startswith [] (p # ps) = False"
| "startswith (c # cs) (p # ps) = (c = p \<and> startswith cs ps)"

definition endswith :: "string \<Rightarrow> string \<Rightarrow> bool" where
  "endswith s p = startswith (rev s) (rev p)"

text \<open>\<open>p in s\<close> for strings.\<close>

fun contains :: "string \<Rightarrow> string \<Rightarrow> bool" where
  "contains [] p = (p = [])"
| "contains (c # cs) p = (startswith (c # cs) p \<or> contains cs p)"

text \<open>\<open>s.replace(old, "", 1)\<close>: the first occurrence of \<open>old\<close> is removed.\<close>

fun remove_first :: "string \<Rightarrow> string \<Rightarrow> string" where
  "remove_first [] old = []"
| "remove_first (c # cs) old =
     (if startswith (c # cs) old then drop (length old) (c # cs)
      else c # remove_first cs old)"

definition lower_char :: "char \<Rightarrow> char" where
  "lower_char c =
     (case map_of (zip ''ABCDEFGHIJKLMNOPQRSTUVWXYZ'' ''abcdefghijklmnopqrstuvwxyz'') c of
        None \<Rightarrow> c
      | Some d \<Rightarrow> d)"

definition lower :: "string \<Rightarrow> string" where
  "lower s = map lower_char s"

definition isalnum :: "char \<Rightarrow> bool" where
  "isalnum c =
     (c \<in> set ''abcdefghijklmnopqrstuvwxyzABCDEFGHIJKLMNOPQRSTUVWXYZ0123456789'')"

fun split_on :: "char \<Rightarrow> string \<Rightarrow> string list" where
  "split_on d [] = [[]]"
| "split_on d (c # cs) =
     (if c = d then [] # split_on d cs
      else (case split_on d cs of [] \<Rightarrow> [[c]] | p # ps \<Rightarrow> (c # p) # ps))"

fun join_with :: "string \<Rightarrow> string list \<Rightarrow> string" where
  "join_with sep [] = []"
| "join_with sep [x] = x"
| "join_with sep (x # y # ys) = x @ sep @ join_with sep (y # ys)"

text \<open>
  \<open>pathlib.Path\<close> on a POSIX host: the parts of a path are its components between
  slashes, with empty components and \<open>.\<close> dropped.
\<close>

definition path_parts :: "string \<Rightarrow> string list" where
  "path_parts p = filter (\<lambda>s. s \<noteq> [] \<and> s \<noteq> ''.'') (split_on CHR ''/'' p)"

definition path_name :: "string \<Rightarrow> string" where
  "path_name p = (let ps = path_parts p in if ps = [] then [] else last ps)"

definition path_parent_name :: "string \<Rightarrow> string" where
  "path_parent_name p =
     (let ps = butlast (path_parts p) in if ps = [] then [] else last ps)"

definition path_str :: "string \<Rightarrow> string" where
  "path_str p =
     (let ps = path_parts p in
      if startswith p ''/'' then ''/'' @ join_with ''/'' ps
      else if ps = [] then ''.'' else join_with ''/'' ps)"

text \<open>\<open>Path.suffix\<close>: from the last dot of the name, unless that dot is first or last.\<close>

fun last_dot :: "string \<Rightarrow> nat option" where
  "last_dot [] = None"
| "last_dot (c # cs) =
     (case last_dot cs of
        Some i \<Rightarrow> Some (Suc i)
      | None \<Rightarrow> if c = CHR ''.'' then Some 0 else None)"

definition path_suffix :: "string \<Rightarrow> string" where
  "path_suffix p =
     (let n = path_name p in
      case last_dot n of
        None \<Rightarrow> []
      | Some i \<Rightarrow> if 0 < i \<and> i < length n - 1 then drop i n else [])"

text \<open>\<open>os.path.join(a, b)\<close> for two components.\<close>

definition os_path_join :: "string \<Rightarrow> string \<Rightarrow> string" where
  "os_path_join a b =
     (if startswith b ''/'' then b
      else if a = [] \<or> endswith a ''/'' then a @ b
      else a @ ''/'' @ b)"

section \<open>The library and the file system\<close>

text \<open>
  The functions of \<open>hashlib\<close>, \<open>hmac\<close>, \<open>zlib\<close>, \<open>json\<close>, \<open>datetime\<close> and \<open>fnmatch\<close>
  that the program calls are parameters of the model: \<open>isoformat\<close> is
  \<open>datetime.fromtimestamp(t, timezone.utc).isoformat()\<close>, \<open>strftime\<close> is the local time as
  \<open>%Y%m%d_%H%M%S\<close>, \<open>json_dumps_sorted\<close> is \<open>json.dumps(x, sort_keys=True)\<close> encoded as
  UTF-8, \<open>json_dump\<close> is what \<open>json.dump(x, f, indent=2, ensure_ascii=False)\<close> writes, and
  \<open>json_loads\<close> is \<open>json.load\<close> on the text of a file, with the message of the error it
  raises on the left.
\<close>

record lib =
  sha256 :: "string \<Rightarrow> string"
  sha512 :: "string \<Rightarrow> string"
  blake2b :: "string \<Rightarrow> string"
  hmac_sha256 :: "string \<Rightarrow> string \<Rightarrow> string"
  pbkdf2_hmac_sha256 :: "string \<Rightarrow> string \<Rightarrow> nat \<Rightarrow> string"
  zlib_compress :: "string \<Rightarrow> string"
  json_dumps_sorted :: "json \<Rightarrow> string"
  json_dump :: "json \<Rightarrow> string"
  json_loads :: "string \<Rightarrow> string + json"
  isoformat :: "rat \<Rightarrow> string"
  strftime :: "rat \<Rightarrow> string"
  fnmatch :: "string \<Rightarrow> string \<Rightarrow> bool"

text \<open>
  A file has its bytes and its times; \<open>open_error\<close> is the message of the \<open>OSError\<close>
  that opening it raises (permission denied, a directory), if any. The file system
  lists its entries in directory order and is looked up by the path as written.
  \<open>path_absolute p\<close> is \<open>str(Path(p).absolute())\<close>, \<open>os_path_abspath\<close> is
  \<open>os.path.abspath\<close>, and \<open>os_walk top\<close> is the list of triples \<open>(root, dirs, files)\<close> that
  \<open>os.walk(top)\<close> yields.
\<close>

record fs_file =
  content :: string
  st_ctime :: rat
  st_mtime :: rat
  open_error :: "string option"

record world =
  files :: "(string \<times> fs_file) list"
  path_absolute :: "string \<Rightarrow> string"
  os_path_abspath :: "string \<Rightarrow> string"
  os_walk :: "string \<Rightarrow> (string \<times> string list \<times> string list) list"

definition exists :: "world \<Rightarrow> string \<Rightarrow> bool" where
  "exists w p = (map_of (files w) p \<noteq> None)"

text \<open>\<open>open(p, 'rb').read()\<close>\<close>

definition read_file :: "world \<Rightarrow> string \<Rightarrow> py_error + string" where
  "read_file w p =
     (case map_of (files w) p of
        None \<Rightarrow> Inl (OSError (''No such file or directory: '' @ p))
      | Some f \<Rightarrow>
          (case open_error f of
             Some msg \<Rightarrow> Inl (OSError msg)
           | None \<Rightarrow> Inr (content f)))"

text \<open>\<open>path.stat()\<close>\<close>

definition stat :: "world \<Rightarrow> string \<Rightarrow> py_error + fs_file" where
  "stat w p =
     (case map_of (files w) p of
        None \<Rightarrow> Inl (OSError (''No such file or directory: '' @ p))
      | Some f \<Rightarrow> Inr f)"

section \<open>Fingerprint engine\<close>

definition digital_signature :: string where
  "digital_signature = ''a6672edf248c5eeef3054ecca057075c938af653''"

definition creator :: string where
  "creator = ''Daniel Guzman''"

definition version :: string where
  "version = ''3.0X''"

definition derive_secret_key :: "lib \<Rightarrow> string" where
  "derive_secret_key L =
     pbkdf2_hmac_sha256 L digital_signature ''ARCSEC_WAR_MODE_SALT'' 100000"

record fingerprint =
  fp_filename :: string
  fp_filepath :: string
  fp_size :: int
  fp_created :: string
  fp_modified :: string
  fp_fingerprinted :: string
  fp_sha256 :: string
  fp_sha512 :: string
  fp_blake2b :: string
  fp_hmac_signature :: string
  fp_compression_ratio :: json

text \<open>
  \<open>calculate_file_hash\<close> returns the fingerprint, or the text of its \<open>error\<close> entry.
  \<open>now\<close> is the reading of the clock, in seconds since the epoch like the file times;
  one call reads the clock once.
\<close>

definition calculate_file_hash :: "lib \<Rightarrow> world \<Rightarrow> rat \<Rightarrow> string \<Rightarrow> string + fingerprint" where
  "calculate_file_hash L w now filepath =
     (if \<not> exists w filepath then Inl (''File not found: '' @ filepath)
      else
        (case read_file w filepath of
           Inl e \<Rightarrow> Inl (''Failed to fingerprint '' @ filepath @ '': '' @ str_of_error e)
         | Inr c \<Rightarrow>
             (case stat w filepath of
                Inl e \<Rightarrow>
                  Inl (''Failed to fingerprint '' @ filepath @ '': '' @ str_of_error e)
              | Inr f \<Rightarrow>
                  Inr \<lparr> fp_filename = path_name filepath,
                        fp_filepath = path_absolute w filepath,
                        fp_size = int (length (content f)),
                        fp_created = isoformat L (st_ctime f),
                        fp_modified = isoformat L (st_mtime f),
                        fp_fingerprinted = isoformat L now,
                        fp_sha256 = sha256 L c,
                        fp_sha512 = sha512 L c,
                        fp_blake2b = blake2b L c,
                        fp_hmac_signature = hmac_sha256 L (derive_secret_key L) c,
                        fp_compression_ratio =
                          (if c \<noteq> []
                           then JFloat (of_nat (length (zlib_compress L c)) / of_nat (length c))
                           else JInt 0) \<rparr>)))"

text \<open>The dictionary that \<open>calculate_file_hash\<close> builds, as it is stored in a manifest.\<close>

definition fingerprint_dict :: "string + fingerprint \<Rightarrow> json" where
  "fingerprint_dict r =
     (case r of
        Inl msg \<Rightarrow> JObj [(''error'', JStr msg)]
      | Inr fp \<Rightarrow>
          JObj [(''filename'', JStr (fp_filename fp)),
                (''filepath'', JStr (fp_filepath fp)),
                (''size'', JInt (fp_size fp)),
                (''created'', JStr (fp_created fp)),
                (''modified'', JStr (fp_modified fp)),
                (''fingerprinted'', JStr (fp_fingerprinted fp)),
                (''hashes'', JObj [(''sha256'', JStr (fp_sha256 fp)),
                                   (''sha512'', JStr (fp_sha512 fp)),
                                   (''blake2b'', JStr (fp_blake2b fp))]),
                (''hmac_signature'', JStr (fp_hmac_signature fp)),
                (''compression_ratio'', fp_compression_ratio fp),
                (''metadata'', JObj [(''creator'', JStr creator),
                                     (''digital_signature'', JStr digital_signature),
                                     (''version'', JStr version),
                                     (''protection_level'', JStr ''WAR_MODE''),
                                     (''tamper_detection'', JStr ''ENABLED'')])])"

section \<open>Verifier: one file\<close>

record file_verification =
  fv_verified :: bool
  fv_status :: string
  fv_error :: "string option"
  fv_checks :: "(bool \<times> bool \<times> bool) option"
  fv_current_fingerprint :: "fingerprint option"
  fv_expected_fingerprint :: "json option"
  fv_verification_time :: "string option"

text \<open>\<open>expected_fingerprint.get("hashes", {}).get(name)\<close>\<close>

definition expected_hash :: "json \<Rightarrow> string \<Rightarrow> py_error + json" where
  "expected_hash expected name =
     (case py_get expected ''hashes'' (JObj []) of
        Inl e \<Rightarrow> Inl e
      | Inr hs \<Rightarrow> py_get hs name JNull)"

text \<open>The three hash comparisons, joined by \<open>and\<close>: a false one ends the evaluation.\<close>

definition hash_match :: "fingerprint \<Rightarrow> json \<Rightarrow> py_error + bool" where
  "hash_match cur expected =
     (case expected_hash expected ''sha256'' of
        Inl e \<Rightarrow> Inl e
      | Inr h1 \<Rightarrow>
          if \<not> py_eq_str (fp_sha256 cur) h1 then Inr False
          else
            (case expected_hash expected ''sha512'' of
               Inl e \<Rightarrow> Inl e
             | Inr h2 \<Rightarrow>
                 if \<not> py_eq_str (fp_sha512 cur) h2 then Inr False
                 else
                   (case expected_hash expected ''blake2b'' of
                      Inl e \<Rightarrow> Inl e
                    | Inr h3 \<Rightarrow> Inr (py_eq_str (fp_blake2b cur) h3))))"

definition verify_file_integrity ::
  "lib \<Rightarrow> world \<Rightarrow> rat \<Rightarrow> string \<Rightarrow> json \<Rightarrow> py_error + file_verification" where
  "verify_file_integrity L w now filepath expected =
     (case calculate_file_hash L w now filepath of
        Inl msg \<Rightarrow>
          Inr \<lparr> fv_verified = False, fv_status = ''FILE_NOT_FOUND'', fv_error = Some msg,
                fv_checks = None, fv_current_fingerprint = None,
                fv_expected_fingerprint = None, fv_verification_time = None \<rparr>
      | Inr cur \<Rightarrow>
          (case hash_match cur expected of
             Inl e \<Rightarrow> Inl e
           | Inr hm \<Rightarrow>
               (case py_get expected ''hmac_signature'' JNull of
                  Inl e \<Rightarrow> Inl e
                | Inr sig \<Rightarrow>
                    (case py_get expected ''size'' JNull of
                       Inl e \<Rightarrow> Inl e
                     | Inr sz \<Rightarrow>
                         (let hmac_match = py_eq_str (fp_hmac_signature cur) sig;
                              size_match = py_eq_int (fp_size cur) sz;
                              ok = (hm \<and> hmac_match \<and> size_match)
                          in Inr \<lparr> fv_verified = ok,
                                   fv_status = (if ok then ''VERIFIED'' else ''TAMPERED''),
                                   fv_error = None,
                                   fv_checks = Some (hm, hmac_match, size_match),
                                   fv_current_fingerprint = Some cur,
                                   fv_expected_fingerprint = Some expected,
                                   fv_verification_time = Some (isoformat L now) \<rparr>)))))"

section \<open>Manifest builder\<close>

record seal =
  manifest_hash :: string
  integrity_seal :: string
  timestamp :: string
  timestamp_proof :: string
  sealed_by :: string
  verification_status :: string

definition generate_integrity_seal :: "lib \<Rightarrow> rat \<Rightarrow> json \<Rightarrow> seal" where
  "generate_integrity_seal L now fingerprints =
     (let fingerprint_data = json_dumps_sorted L fingerprints;
          mh = sha256 L fingerprint_data;
          ts = isoformat L now
      in \<lparr> manifest_hash = mh,
           integrity_seal = hmac_sha256 L (derive_secret_key L) fingerprint_data,
           timestamp = ts,
           timestamp_proof = hmac_sha256 L (derive_secret_key L) (mh @ '':'' @ ts),
           sealed_by = creator @ '' - ARCSEC v'' @ version,
           verification_status = ''CRYPTOGRAPHICALLY_SEALED'' \<rparr>)"

definition seal_dict :: "seal \<Rightarrow> json" where
  "seal_dict s =
     JObj [(''manifest_hash'', JStr (manifest_hash s)),
           (''integrity_seal'', JStr (integrity_seal s)),
           (''timestamp'', JStr (timestamp s)),
           (''timestamp_proof'', JStr (timestamp_proof s)),
           (''sealed_by'', JStr (sealed_by s)),
           (''verification_status'', JStr (verification_status s))]"

text \<open>
  \<open>scan_arcsec_files\<close>: the file names that \<open>os.walk\<close> lists are kept when they start
  with one of the two markers, and each kept path is fingerprinted in turn.
\<close>

definition is_scanned_name :: "string \<Rightarrow> bool" where
  "is_scanned_name file = (startswith file ''arcsec'' \<or> startswith file ''ARCSEC'')"

definition scan_paths :: "world \<Rightarrow> string \<Rightarrow> string list" where
  "scan_paths w root_directory =
     concat (map (\<lambda>(root, dirs, fs). map (os_path_join root) (filter is_scanned_name fs))
                 (os_walk w root_directory))"

definition scan_fingerprints :: "lib \<Rightarrow> world \<Rightarrow> rat \<Rightarrow> string list \<Rightarrow> (string \<times> json) list" where
  "scan_fingerprints L w now arcsec_files =
     foldl (\<lambda>fingerprints filepath.
              AList.update filepath (fingerprint_dict (calculate_file_hash L w now filepath))
                fingerprints)
           [] arcsec_files"

definition scan_arcsec_files :: "lib \<Rightarrow> world \<Rightarrow> rat \<Rightarrow> string \<Rightarrow> json" where
  "scan_arcsec_files L w now root_directory =
     (let arcsec_files = scan_paths w root_directory;
          fingerprints = JObj (scan_fingerprints L w now arcsec_files);
          total_files = int (length arcsec_files)
      in JObj [(''arcsec_fingerprint_manifest'',
                  JObj [(''version'', JStr version),
                        (''creator'', JStr creator),
                        (''digital_signature'', JStr digital_signature),
                        (''generated'', JStr (isoformat L now)),
                        (''total_files'', JInt total_files),
                        (''scan_directory'', JStr (os_path_abspath w root_directory)),
                        (''protection_mode'', JStr ''WAR_MODE_ACTIVE''),
                        (''verification_method'', JStr ''CRYPTOGRAPHIC_HMAC_SHA256'')]),
               (''file_fingerprints'', fingerprints),
               (''integrity_seal'', seal_dict (generate_integrity_seal L now fingerprints))])"

section \<open>Verifier: the manifest\<close>

record manifest_verification =
  mv_verified :: bool
  mv_status :: string
  mv_seal_integrity :: "bool option"
  mv_error :: "string option"
  mv_expected_seal :: "json option"
  mv_current_seal :: "seal option"
  mv_verification_time :: "string option"

text \<open>The body of the \<open>try\<close> block of \<open>verify_manifest_integrity\<close>.\<close>

definition verify_manifest_body :: "lib \<Rightarrow> rat \<Rightarrow> json \<Rightarrow> py_error + manifest_verification" where
  "verify_manifest_body L now manifest =
     (case py_get manifest ''file_fingerprints'' (JObj []) of
        Inl e \<Rightarrow> Inl e
      | Inr fingerprints \<Rightarrow>
          (case py_get manifest ''integrity_seal'' (JObj []) of
             Inl e \<Rightarrow> Inl e
           | Inr expected_seal \<Rightarrow>
               (let current_seal = generate_integrity_seal L now fingerprints in
                case py_get expected_seal ''manifest_hash'' JNull of
                  Inl e \<Rightarrow> Inl e
                | Inr eh \<Rightarrow>
                    (case py_get expected_seal ''integrity_seal'' JNull of
                       Inl e \<Rightarrow> Inl e
                     | Inr es \<Rightarrow>
                         (let seal_match =
                                (py_eq_str (manifest_hash current_seal) eh \<and>
                                 py_eq_str (integrity_seal current_seal) es)
                          in Inr \<lparr> mv_verified = seal_match,
                                   mv_status = (if seal_match then ''MANIFEST_VERIFIED''
                                                else ''MANIFEST_TAMPERED''),
                                   mv_seal_integrity = Some seal_match,
                                   mv_error = None,
                                   mv_expected_seal = Some expected_seal,
                                   mv_current_seal = Some current_seal,
                                   mv_verification_time = Some (isoformat L now) \<rparr>)))))"

definition verify_manifest_integrity :: "lib \<Rightarrow> rat \<Rightarrow> json \<Rightarrow> manifest_verification" where
  "verify_manifest_integrity L now manifest =
     (case verify_manifest_body L now manifest of
        Inr r \<Rightarrow> r
      | Inl e \<Rightarrow>
          \<lparr> mv_verified = False, mv_status = ''VERIFICATION_ERROR'', mv_seal_integrity = None,
            mv_error = Some (str_of_error e), mv_expected_seal = None, mv_current_seal = None,
            mv_verification_time = None \<rparr>)"

section \<open>Manifest store\<close>

text \<open>\<open>open(path, 'w')\<close> and one write of \<open>text\<close> at time \<open>now\<close>.\<close>

definition write_file :: "world \<Rightarrow> rat \<Rightarrow> string \<Rightarrow> string \<Rightarrow> py_error + world" where
  "write_file w now p text =
     (case map_of (files w) p of
        Some f \<Rightarrow>
          (case open_error f of
             Some msg \<Rightarrow> Inl (OSError msg)
           | None \<Rightarrow>
               Inr (w\<lparr> files := AList.update p (f\<lparr> content := text, st_ctime := now,
                                                     st_mtime := now \<rparr>) (files w) \<rparr>))
      | None \<Rightarrow>
          Inr (w\<lparr> files := AList.update p \<lparr> content = text, st_ctime = now, st_mtime = now,
                                              open_error = None \<rparr> (files w) \<rparr>))"




text \<open>\<open>with open(manifest_file, 'r') as f: manifest = json.load(f)\<close>\<close>

definition load_manifest :: "lib \<Rightarrow> world \<Rightarrow> string \<Rightarrow> py_error + json" where
  "load_manifest L w manifest_file =
     (case read_file w manifest_file of
        Inl e \<Rightarrow> Inl e
      | Inr text \<Rightarrow>
          (case json_loads L text of
             Inl msg \<Rightarrow> Inl (JSONDecodeError msg)
           | Inr manifest \<Rightarrow> Inr manifest))"

section \<open>Verifier: the whole manifest\<close>

text \<open>\<open>"error" in x\<close>\<close>

fun py_contains :: "json \<Rightarrow> string \<Rightarrow> py_error + bool" where
  "py_contains (JObj kvs) k = Inr (map_of kvs k \<noteq> None)"
| "py_contains (JStr s) k = Inr (contains s k)"
| "py_contains (JArr xs) k = Inr (JStr k \<in> set xs)"
| "py_contains v k =
     Inl (TypeError (''argument of type '' @ [CHR 0x27] @ type_name v @ [CHR 0x27]
                     @ '' is not iterable''))"

text \<open>\<open>d.items()\<close>\<close>

fun py_items :: "json \<Rightarrow> py_error + (string \<times> json) list" where
  "py_items (JObj kvs) = Inr kvs"
| "py_items v = Inl (no_attribute v ''items'')"

text \<open>The loop over the fingerprints; an exception ends it.\<close>

fun verify_each ::
  "lib \<Rightarrow> world \<Rightarrow> rat \<Rightarrow> (string \<times> json) list \<Rightarrow> (string \<times> file_verification) list
     \<Rightarrow> py_error + (string \<times> file_verification) list" where
  "verify_each L w now [] file_verifications = Inr file_verifications"
| "verify_each L w now ((filepath, expected_fingerprint) # rest) file_verifications =
     (case py_contains expected_fingerprint ''error'' of
        Inl e \<Rightarrow> Inl e
      | Inr True \<Rightarrow> verify_each L w now rest file_verifications
      | Inr False \<Rightarrow>
          (case verify_file_integrity L w now filepath expected_fingerprint of
             Inl e \<Rightarrow> Inl e
           | Inr verification \<Rightarrow>
               verify_each L w now rest
                 (AList.update filepath verification file_verifications)))"

text \<open>
  The summary of a full verification. \<open>integrity_rate\<close> is a float in the program; here
  it is the exact quotient, without the rounding of float arithmetic.
\<close>

record summary =
  total_files :: int
  verified_files :: int
  tampered_files :: int
  integrity_rate :: rat

record load_result =
  lr_status :: string
  lr_manifest_verification :: "manifest_verification option"
  lr_file_verifications :: "(string \<times> file_verification) list option"
  lr_summary :: "summary option"
  lr_error :: "string option"

definition verification_error :: "py_error \<Rightarrow> load_result" where
  "verification_error e =
     \<lparr> lr_status = ''VERIFICATION_ERROR'', lr_manifest_verification = None,
       lr_file_verifications = None, lr_summary = None, lr_error = Some (str_of_error e) \<rparr>"

definition summarize :: "(string \<times> file_verification) list \<Rightarrow> summary" where
  "summarize file_verifications =
     (let total = int (length file_verifications);
          verified = int (length (filter (\<lambda>(p, v). fv_verified v) file_verifications))
      in \<lparr> total_files = total, verified_files = verified,
           tampered_files = total - verified,
           integrity_rate = (if total > 0 then of_int verified / of_int total * 100 else 0) \<rparr>)"

definition load_and_verify_manifest :: "lib \<Rightarrow> world \<Rightarrow> rat \<Rightarrow> string \<Rightarrow> load_result" where
  "load_and_verify_manifest L w now manifest_file =
     (case load_manifest L w manifest_file of
        Inl e \<Rightarrow> verification_error e
      | Inr manifest \<Rightarrow>
          (let manifest_verification = verify_manifest_integrity L now manifest in
           if \<not> mv_verified manifest_verification then
             \<lparr> lr_status = ''MANIFEST_COMPROMISED'',
               lr_manifest_verification = Some manifest_verification,
               lr_file_verifications = Some [], lr_summary = None, lr_error = None \<rparr>
           else
             (case py_get manifest ''file_fingerprints'' (JObj []) of
                Inl e \<Rightarrow> verification_error e
              | Inr fingerprints \<Rightarrow>
                  (case py_items fingerprints of
                     Inl e \<Rightarrow> verification_error e
                   | Inr items \<Rightarrow>
                       (case verify_each L w now items [] of
                          Inl e \<Rightarrow> verification_error e
                        | Inr file_verifications \<Rightarrow>
                            \<lparr> lr_status = ''VERIFICATION_COMPLETE'',
                              lr_manifest_verification = Some manifest_verification,
                              lr_file_verifications = Some file_verifications,
                              lr_summary = Some (summarize file_verifications),
                              lr_error = None \<rparr>)))))"

section \<open>Enforcement engine\<close>

subsection \<open>Naming validator\<close>

definition prefix_required :: string where
  "prefix_required = ''arcsec''"

definition allowed_separators :: "string list" where
  "allowed_separators = [''-'', ''_'']"

definition extensions :: "string list" where
  "extensions = [''.ts'', ''.js'', ''.py'', ''.json'', ''.md'']"

text \<open>How an f-string prints a list of strings.\<close>

definition py_repr_list :: "string list \<Rightarrow> string" where
  "py_repr_list xs =
     ''['' @ join_with '', '' (map (\<lambda>x. [CHR 0x27] @ x @ [CHR 0x27]) xs) @ '']''"

text \<open>
  The result of \<open>validate_arcsec_naming\<close>: the early return carries \<open>reason\<close> and no list
  of violations, the evaluated one carries the list and the enforcement action.
\<close>

record naming_result =
  nr_valid :: bool
  nr_reason :: "string option"
  nr_violations :: "string list option"
  nr_enforcement_action :: "string option"

definition is_arcsec_file :: "string \<Rightarrow> bool" where
  "is_arcsec_file filepath =
     (let filename = lower (path_name filepath) in
      startswith filename ''arcsec'' \<or> contains filename ''arcsec'' \<or>
      path_parent_name filepath = ''services'')"

definition allowed_char :: "char \<Rightarrow> bool" where
  "allowed_char c = (isalnum c \<or> [c] \<in> set allowed_separators \<or> c = CHR ''.'')"

definition naming_violations :: "string \<Rightarrow> string list" where
  "naming_violations filename =
     (if \<not> startswith filename prefix_required
      then [''Missing required prefix: '' @ prefix_required] else [])
     @ (if \<not> (\<exists>ext \<in> set extensions. endswith filename ext)
        then [''Invalid extension. Allowed: '' @ py_repr_list extensions] else [])
     @ (case find (\<lambda>c. \<not> allowed_char c) (remove_first filename prefix_required) of
          None \<Rightarrow> []
        | Some c \<Rightarrow> [''Invalid character in filename: '' @ [CHR 0x27, c, CHR 0x27]])"

definition validate_arcsec_naming :: "string \<Rightarrow> naming_result" where
  "validate_arcsec_naming filepath =
     (let filename = lower (path_name filepath) in
      if \<not> is_arcsec_file filepath then
        \<lparr> nr_valid = True, nr_reason = Some ''Not an ARCSEC file'', nr_violations = None,
          nr_enforcement_action = None \<rparr>
      else
        (let violations = naming_violations filename in
         \<lparr> nr_valid = (length violations = 0), nr_reason = None,
           nr_violations = Some violations,
           nr_enforcement_action =
             (if violations \<noteq> [] then Some ''REJECT_AND_ALERT'' else None) \<rparr>))"

definition naming_result_dict :: "naming_result \<Rightarrow> json" where
  "naming_result_dict r =
     (case nr_violations r of
        None \<Rightarrow>
          JObj [(''valid'', JBool (nr_valid r)),
                (''reason'', (case nr_reason r of None \<Rightarrow> JNull | Some x \<Rightarrow> JStr x))]
      | Some vs \<Rightarrow>
          JObj [(''valid'', JBool (nr_valid r)),
                (''violations'', JArr (map JStr vs)),
                (''enforcement_action'',
                   (case nr_enforcement_action r of None \<Rightarrow> JNull | Some a \<Rightarrow> JStr a))])"

subsection \<open>Content integrity check\<close>

record integrity_result =
  ir_status :: string
  ir_action :: string
  ir_expected_hash :: "json option"
  ir_current_hash :: "string option"
  ir_error :: "string option"

definition integrity_outcome :: "string \<Rightarrow> string \<Rightarrow> integrity_result" where
  "integrity_outcome st act =
     \<lparr> ir_status = st, ir_action = act, ir_expected_hash = None, ir_current_hash = None,
       ir_error = None \<rparr>"

text \<open>The body of the \<open>try\<close> block of \<open>check_file_integrity\<close>, after the manifest is found.\<close>

definition check_file_body :: "lib \<Rightarrow> world \<Rightarrow> string \<Rightarrow> string \<Rightarrow> py_error + integrity_result" where
  "check_file_body L w manifest_file filepath =
     (case load_manifest L w manifest_file of
        Inl e \<Rightarrow> Inl e
      | Inr manifest \<Rightarrow>
          (case py_get manifest ''file_fingerprints'' (JObj []) of
             Inl e \<Rightarrow> Inl e
           | Inr fingerprints \<Rightarrow>
               (case py_get fingerprints filepath JNull of
                  Inl e \<Rightarrow> Inl e
                | Inr expected_fingerprint \<Rightarrow>
                    if \<not> py_truthy expected_fingerprint
                    then Inr (integrity_outcome ''NEW_FILE'' ''ADD_TO_MANIFEST'')
                    else
                      (case read_file w filepath of
                         Inl e \<Rightarrow> Inl e
                       | Inr c \<Rightarrow>
                           (let current_hash = sha256 L c in
                            case expected_hash expected_fingerprint ''sha256'' of
                              Inl e \<Rightarrow> Inl e
                            | Inr eh \<Rightarrow>
                                if \<not> py_eq_str current_hash eh
                                then Inr \<lparr> ir_status = ''INTEGRITY_VIOLATION'',
                                           ir_action = ''BLOCK_AND_RESTORE'',
                                           ir_expected_hash = Some eh,
                                           ir_current_hash = Some current_hash,
                                           ir_error = None \<rparr>
                                else Inr (integrity_outcome ''VERIFIED'' ''ALLOW''))))))"

definition check_file_integrity :: "lib \<Rightarrow> world \<Rightarrow> string \<Rightarrow> string \<Rightarrow> integrity_result" where
  "check_file_integrity L w manifest_file filepath =
     (if \<not> exists w manifest_file
      then integrity_outcome ''NO_MANIFEST'' ''GENERATE_BASELINE''
      else
        (case check_file_body L w manifest_file filepath of
           Inr r \<Rightarrow> r
         | Inl e \<Rightarrow>
             \<lparr> ir_status = ''CHECK_ERROR'', ir_action = ''ALERT'', ir_expected_hash = None,
               ir_current_hash = None, ir_error = Some (str_of_error e) \<rparr>))"

definition integrity_result_dict :: "integrity_result \<Rightarrow> json" where
  "integrity_result_dict r =
     JObj ([(''status'', JStr (ir_status r))]
           @ (case ir_error r of None \<Rightarrow> [] | Some e \<Rightarrow> [(''error'', JStr e)])
           @ [(''action'', JStr (ir_action r))]
           @ (case ir_expected_hash r of None \<Rightarrow> [] | Some h \<Rightarrow> [(''expected_hash'', h)])
           @ (case ir_current_hash r of None \<Rightarrow> [] | Some h \<Rightarrow> [(''current_hash'', JStr h)]))"

subsection \<open>Violation log\<close>

text \<open>\<open>f"{n:06d}"\<close>: decimal digits, padded with zeros to six places.\<close>

fun decimal :: "nat \<Rightarrow> string" where
  "decimal n =
     (if n < 10 then [''0123456789'' ! n]
      else decimal (n div 10) @ [''0123456789'' ! (n mod 10)])"

declare decimal.simps [simp del]

definition zero_padded6 :: "nat \<Rightarrow> string" where
  "zero_padded6 n = (let d = decimal n in replicate (6 - length d) CHR ''0'' @ d)"

record violation_entry =
  ve_timestamp :: string
  ve_violation_id :: string
  ve_type :: string
  ve_filepath :: string
  ve_details :: json
  ve_enforcement_action :: json
  ve_war_mode :: bool
  ve_digital_signature :: string

text \<open>
  The state of \<open>ARCSECInjector\<close> that its methods read and change. \<open>violation_log\<close> holds
  the entries appended to the log file, oldest first.
\<close>

record injector =
  war_mode :: bool
  manifest_file :: string
  violation_count :: nat
  violation_log :: "violation_entry list"

definition log_violation :: "lib \<Rightarrow> rat \<Rightarrow> injector \<Rightarrow> string \<Rightarrow> string \<Rightarrow> json \<Rightarrow> injector" where
  "log_violation L now self violation_type filepath details =
     (let n = violation_count self + 1;
          violation_entry =
            \<lparr> ve_timestamp = isoformat L now,
              ve_violation_id = ''ARCSEC-'' @ zero_padded6 n,
              ve_type = violation_type,
              ve_filepath = filepath,
              ve_details = details,
              ve_enforcement_action =
                (case py_get details ''action'' (JStr ''UNKNOWN'') of
                   Inr a \<Rightarrow> a
                 | Inl e \<Rightarrow> JStr ''UNKNOWN''),
              ve_war_mode = war_mode self,
              ve_digital_signature = digital_signature \<rparr>
      in self\<lparr> violation_count := n,
              violation_log := violation_log self @ [violation_entry] \<rparr>)"

subsection \<open>Protection policy\<close>

text \<open>
  \<open>enforce_protection\<close> returns its boolean and the injector after the call. Nothing in
  its \<open>try\<close> block raises in this model, so the \<open>ENFORCEMENT_ERROR\<close> handler is not taken.
\<close>

definition enforce_protection ::
  "lib \<Rightarrow> rat \<Rightarrow> injector \<Rightarrow> world \<Rightarrow> string \<Rightarrow> string \<Rightarrow> bool \<times> injector" where
  "enforce_protection L now self w filepath event_type =
     (let naming_result = validate_arcsec_naming filepath;
          self1 = (if \<not> nr_valid naming_result
                  then log_violation L now self ''NAMING_VIOLATION'' filepath
                         (naming_result_dict naming_result)
                  else self)
      in if \<not> nr_valid naming_result \<and> war_mode self then (False, self1)
         else if exists w filepath \<and> event_type \<in> set [''modified'', ''created''] then
           (let integrity_result = check_file_integrity L w (manifest_file self1) filepath in
            if ir_status integrity_result = ''INTEGRITY_VIOLATION'' then
              (let self2 = log_violation L now self1 ''UNAUTHORIZED_MODIFICATION'' filepath
                            (integrity_result_dict integrity_result)
               in if war_mode self then (False, self2) else (True, self2))
            else (True, self1))
         else (True, self1))"

subsection \<open>Backup and restore\<close>

text \<open>
  \<open>shutil.copy2(src, dst)\<close> copies the bytes and then the file times of the source:
  the copy keeps the modification time of \<open>src\<close>.
\<close>

definition copy2 :: "world \<Rightarrow> rat \<Rightarrow> string \<Rightarrow> string \<Rightarrow> py_error + world" where
  "copy2 w now src dst =
     (if src = dst then Inl (OSError (src @ '' and '' @ dst @ '' are the same file''))
      else
        (case read_file w src of
           Inl e \<Rightarrow> Inl e
         | Inr c \<Rightarrow>
             (case write_file w now dst c of
                Inl e \<Rightarrow> Inl e
              | Inr w' \<Rightarrow>
                  (case (map_of (files w) src, map_of (files w') dst) of
                     (Some f, Some g) \<Rightarrow>
                       Inr (w'\<lparr> files := AList.update dst (g\<lparr> st_mtime := st_mtime f \<rparr>)
                                             (files w') \<rparr>)
                   | _ \<Rightarrow> Inr w'))))"

definition backup_dir :: string where
  "backup_dir = ''.arcsec_backups''"

definition backup_file :: "lib \<Rightarrow> world \<Rightarrow> rat \<Rightarrow> string \<Rightarrow> string \<times> world" where
  "backup_file L w now filepath =
     (let timestamp = strftime L now;
          filename = path_name filepath;
          backup_path = backup_dir @ ''/'' @ filename @ ''.'' @ timestamp @ ''.backup''
      in case copy2 w now filepath backup_path of
           Inl e \<Rightarrow> ([], w)
         | Inr w' \<Rightarrow> (backup_path, w'))"

text \<open>
  \<open>backup_dir.glob(pattern)\<close>: the entries directly inside the directory whose names
  match, in directory order.
\<close>

definition glob :: "lib \<Rightarrow> world \<Rightarrow> string \<Rightarrow> string \<Rightarrow> (string \<times> fs_file) list" where
  "glob L w dir pattern =
     filter (\<lambda>(p, f). startswith p (dir @ ''/'') \<and>
                       CHR ''/'' \<notin> set (drop (length dir + 1) p) \<and>
                       fnmatch L (drop (length dir + 1) p) pattern)
            (files w)"

text \<open>\<open>max(xs, key=...)\<close> on a non-empty list: the first of the greatest.\<close>

fun max_by :: "('a \<Rightarrow> rat) \<Rightarrow> 'a \<Rightarrow> 'a list \<Rightarrow> 'a" where
  "max_by key best [] = best"
| "max_by key best (x # xs) = (if key best < key x then max_by key x xs else max_by key best xs)"

definition restore_file :: "lib \<Rightarrow> world \<Rightarrow> rat \<Rightarrow> string \<Rightarrow> bool \<times> world" where
  "restore_file L w now filepath =
     (let filename = path_name filepath;
          backups = glob L w backup_dir (filename @ ''.*.backup'')
      in case backups of
           [] \<Rightarrow> (False, w)
         | b # bs \<Rightarrow>
             (let latest_backup = max_by (\<lambda>(p, f). st_mtime f) b bs in
              case copy2 w now (fst latest_backup) filepath of
                Inl e \<Rightarrow> (False, w)
              | Inr w' \<Rightarrow> (True, w')))"

subsection \<open>File system events\<close>

record event =
  is_directory :: bool
  src_path :: string
  event_type :: string

definition is_arcsec_related :: "string \<Rightarrow> bool" where
  "is_arcsec_related filepath =
     (let filename = lower (path_name filepath) in
      startswith filename ''arcsec'' \<or> contains filename ''arcsec'' \<or>
      (path_suffix filepath \<in> set [''.ts'', ''.js'', ''.py''] \<and>
       contains (path_str filepath) ''server/services''))"

text \<open>\<open>on_any_event\<close> returns the injector and the file system after the event.\<close>

definition on_any_event :: "lib \<Rightarrow> rat \<Rightarrow> injector \<Rightarrow> world \<Rightarrow> event \<Rightarrow> injector \<times> world" where
  "on_any_event L now self w ev =
     (if is_directory ev then (self, w)
      else
        (let filepath = src_path ev in
         if \<not> is_arcsec_related filepath then (self, w)
         else
           (case enforce_protection L now self w filepath (event_type ev) of
              (True, self') \<Rightarrow> (self', w)
            | (False, self') \<Rightarrow>
                if event_type ev = ''modified'' then (self', snd (restore_file L w now filepath))
                else if event_type ev = ''deleted''
                then (self', snd (restore_file L w now filepath))
                else (self', w))))"

section \<open>What the specification speaks of\<close>

text \<open>
  The value stored under a key of a dictionary, \<open>None\<close> when the key is absent or the
  value is not a dictionary.
\<close>

definition stored_field :: "json \<Rightarrow> string \<Rightarrow> json" where
  "stored_field d k =
     (case d of
        JObj kvs \<Rightarrow> (case map_of kvs k of Some v \<Rightarrow> v | None \<Rightarrow> JNull)
      | _ \<Rightarrow> JNull)"



text \<open>The fingerprint set of a manifest: \<open>file_fingerprints\<close>, empty when absent.\<close>

definition stored_fingerprints :: "json \<Rightarrow> json" where
  "stored_fingerprints m =
     (case m of
        JObj kvs \<Rightarrow> (case map_of kvs ''file_fingerprints'' of Some v \<Rightarrow> v | None \<Rightarrow> JObj [])
      | _ \<Rightarrow> JObj [])"

text \<open>
  The stored seal of a manifest matches the seal recomputed from its fingerprint set:
  the manifest hash and the seal code are those of the canonical serialization.
\<close>

definition stored_seal_matches :: "lib \<Rightarrow> json \<Rightarrow> bool" where
  "stored_seal_matches L m \<longleftrightarrow>
     py_eq_str (sha256 L (json_dumps_sorted L (stored_fingerprints m)))
       (stored_field (stored_field m ''integrity_seal'') ''manifest_hash'') \<and>
     py_eq_str (hmac_sha256 L (derive_secret_key L) (json_dumps_sorted L (stored_fingerprints m)))
       (stored_field (stored_field m ''integrity_seal'') ''integrity_seal'')"

text \<open>One field of the stored seal of a manifest is given a new value.\<close>

definition mutate_seal :: "json \<Rightarrow> string \<Rightarrow> json \<Rightarrow> json" where
  "mutate_seal m k v =
     (case m of
        JObj kvs \<Rightarrow>
          (case map_of kvs ''integrity_seal'' of
             Some (JObj skvs) \<Rightarrow>
               JObj (AList.update ''integrity_seal'' (JObj (AList.update k v skvs)) kvs)
           | _ \<Rightarrow> m)
      | _ \<Rightarrow> m)"

text \<open>
  The fingerprint that the manifest file holds for a path, if the file is a manifest
  that tracks the path.
\<close>

definition tracked_fingerprint :: "lib \<Rightarrow> world \<Rightarrow> string \<Rightarrow> string \<Rightarrow> json option" where
  "tracked_fingerprint L w mf p =
     (case load_manifest L w mf of
        Inr (JObj kvs) \<Rightarrow>
          (case map_of kvs ''file_fingerprints'' of
             Some (JObj fps) \<Rightarrow> map_of fps p
           | _ \<Rightarrow> None)
      | _ \<Rightarrow> None)"


section \<open>A small instance for examples\<close>

text \<open>
  Stand-ins for the library, simple enough to compute with: a digest is its input
  under a tag, the serializer prints a value in one line, and the parser reads back
  the documents it is given.
\<close>

fun demo_render :: "json \<Rightarrow> string" where
  "demo_render JNull = ''null''"
| "demo_render (JBool b) = (if b then ''true'' else ''false'')"
| "demo_render (JInt i) = (if i < 0 then ''-'' else []) @ decimal (nat \<bar>i\<bar>)"
| "demo_render (JFloat r) = ''<float>''"
| "demo_render (JStr s) = ''<'' @ s @ ''>''"
| "demo_render (JArr xs) = ''['' @ concat (map (\<lambda>x. demo_render x @ '','') xs) @ '']''"
| "demo_render (JObj kvs) =
     ''{'' @ concat (map (\<lambda>(k, v). k @ '':'' @ demo_render v @ '','') kvs) @ ''}''"

text \<open>Shell-style matching with \<open>*\<close> and \<open>?\<close>; every other character stands for itself.\<close>

fun demo_fnmatch :: "string \<Rightarrow> string \<Rightarrow> bool" where
  "demo_fnmatch [] [] = True"
| "demo_fnmatch (c # cs) [] = False"
| "demo_fnmatch [] (p # ps) = (p = CHR ''*'' \<and> demo_fnmatch [] ps)"
| "demo_fnmatch (c # cs) (p # ps) =
     (if p = CHR ''*'' then demo_fnmatch (c # cs) ps \<or> demo_fnmatch cs (p # ps)
      else (p = CHR ''?'' \<or> p = c) \<and> demo_fnmatch cs ps)"

definition demo_lib :: "json list \<Rightarrow> lib" where
  "demo_lib docs =
     \<lparr> sha256 = (\<lambda>c. ''sha256:'' @ c),
       sha512 = (\<lambda>c. ''sha512:'' @ c),
       blake2b = (\<lambda>c. ''blake2b:'' @ c),
       hmac_sha256 = (\<lambda>k c. ''hmac:'' @ k @ '':'' @ c),
       pbkdf2_hmac_sha256 = (\<lambda>pw salt n. ''key''),
       zlib_compress = (\<lambda>c. c),
       json_dumps_sorted = demo_render,
       json_dump = demo_render,
       json_loads = (\<lambda>text. case find (\<lambda>d. demo_render d = text) docs of
                                Some d \<Rightarrow> Inr d
                              | None \<Rightarrow> Inl ''Expecting value''),
       isoformat = (\<lambda>t. ''T'' @ decimal (nat \<lfloor>t\<rfloor>)),
       strftime = (\<lambda>t. decimal (nat \<lfloor>t\<rfloor>)),
       fnmatch = demo_fnmatch \<rparr>"

definition demo_file :: "string \<Rightarrow> rat \<Rightarrow> fs_file" where
  "demo_file c t = \<lparr> content = c, st_ctime = t, st_mtime = t, open_error = None \<rparr>"

text \<open>A file system with the given entries whose walk lists the given names in one directory.\<close>

definition demo_world :: "(string \<times> fs_file) list \<Rightarrow> string list \<Rightarrow> world" where
  "demo_world fs names =
     \<lparr> files = fs,
       path_absolute = (\<lambda>p. ''/repo/'' @ p),
       os_path_abspath = (\<lambda>p. ''/repo''),
       os_walk = (\<lambda>root. [(root, [], names)]) \<rparr>"

text \<open>
  A repository of one protected file, its manifest as \<open>scan_arcsec_files\<close> builds it,
  and a file system that holds a given manifest document next to given files.
\<close>

definition demo_manifest :: json where
  "demo_manifest =
     scan_arcsec_files (demo_lib [])
       (demo_world [(''./arcsec_x.py'', demo_file ''v1'' 100)] [''arcsec_x.py'']) 1000 ''.''"

definition demo_manifest_file :: string where
  "demo_manifest_file = ''ARCSEC_FINGERPRINT_MANIFEST.json''"

definition demo_site :: "json \<Rightarrow> (string \<times> fs_file) list \<Rightarrow> world" where
  "demo_site doc fs =
     demo_world ((demo_manifest_file, demo_file (demo_render doc) 1000) # fs)
       (map (\<lambda>(p, f). path_name p) fs)"




text \<open>
  A history of backups of \<open>arcsec_x.py\<close>: the file is backed up at time 1000 holding
  \<open>v1\<close>; it is edited to \<open>v2\<close> at time 1500 and backed up at time 2000; then an older copy
  holding \<open>v3\<close>, last modified at time 50, is moved into its place with its modification
  time kept, and backed up at time 3000.
\<close>

definition demo_put :: "world \<Rightarrow> string \<Rightarrow> fs_file \<Rightarrow> world" where
  "demo_put w p f = w\<lparr> files := AList.update p f (files w) \<rparr>"

definition demo_backups :: world where
  "demo_backups =
     (let w0 = demo_world [(''arcsec_x.py'', demo_file ''v1'' 100)] [''arcsec_x.py''];
          w1 = snd (backup_file (demo_lib []) w0 1000 ''arcsec_x.py'');
          w2 = snd (backup_file (demo_lib []) (demo_put w1 ''arcsec_x.py'' (demo_file ''v2'' 1500))
                      2000 ''arcsec_x.py'')
      in snd (backup_file (demo_lib []) (demo_put w2 ''arcsec_x.py'' (demo_file ''v3'' 50))
                3000 ''arcsec_x.py''))"

text \<open>The injector as \<open>ARCSECInjector.__init__\<close> leaves it.\<close>

definition demo_injector :: injector where
  "demo_injector =
     \<lparr> war_mode = True, manifest_file = ''ARCSEC_FINGERPRINT_MANIFEST.json'',
       violation_count = 0, violation_log = [] \<rparr>"

section \<open>Properties: verifying one file\<close>










section \<open>Properties: verifying the manifest\<close>

lemma verify_manifest_verified:
  "mv_verified (verify_manifest_integrity L now m) = stored_seal_matches L m"
  by (cases m)
     (auto simp: verify_manifest_integrity_def verify_manifest_body_def stored_seal_matches_def
        stored_field_def stored_fingerprints_def generate_integrity_seal_def Let_def
        split: option.splits json.splits sum.splits)

lemma verify_manifest_status:
  "mv_status (verify_manifest_integrity L now m) = ''MANIFEST_VERIFIED'' \<longleftrightarrow>
   stored_seal_matches L m"
  by (cases m)
     (auto simp: verify_manifest_integrity_def verify_manifest_body_def stored_seal_matches_def
        stored_field_def stored_fingerprints_def generate_integrity_seal_def Let_def
        split: option.splits json.splits sum.splits)

lemma verify_manifest_tampered:
  "stored_field m ''integrity_seal'' = JObj skvs \<Longrightarrow> \<not> stored_seal_matches L m \<Longrightarrow>
   mv_status (verify_manifest_integrity L now m) = ''MANIFEST_TAMPERED''"
  by (cases m)
     (auto simp: verify_manifest_integrity_def verify_manifest_body_def stored_seal_matches_def
        stored_field_def stored_fingerprints_def generate_integrity_seal_def Let_def
        split: option.splits json.splits sum.splits)

lemma stored_seal_is_dict:
  "stored_seal_matches L m \<Longrightarrow> \<exists>kvs skvs. m = JObj kvs \<and> map_of kvs ''integrity_seal'' = Some (JObj skvs)"
  by (auto simp: stored_seal_matches_def stored_field_def split: json.splits option.splits)

lemma mutate_seal_fingerprints:
  "stored_fingerprints (mutate_seal m k v) = stored_fingerprints m"
  by (auto simp: mutate_seal_def stored_fingerprints_def update_conv' split: json.splits option.splits)

lemma mutate_seal_field:
  "m = JObj kvs \<Longrightarrow> map_of kvs ''integrity_seal'' = Some (JObj skvs) \<Longrightarrow>
   stored_field (stored_field (mutate_seal m k v) ''integrity_seal'') k' =
     (if k' = k then v else stored_field (stored_field m ''integrity_seal'') k')"
  by (auto simp: mutate_seal_def stored_field_def update_conv' split: json.splits option.splits)

lemma mutate_seal_still_dict:
  "m = JObj kvs \<Longrightarrow> map_of kvs ''integrity_seal'' = Some (JObj skvs) \<Longrightarrow>
   stored_field (mutate_seal m k v) ''integrity_seal'' = JObj (AList.update k v skvs)"
  by (auto simp: mutate_seal_def stored_field_def update_conv' split: json.splits option.splits)

lemma py_eq_str_unique: "py_eq_str s a \<Longrightarrow> py_eq_str s b \<Longrightarrow> a = b"
  by (cases a; cases b) auto

lemma mutate_seal_detected:
  assumes sm: "stored_seal_matches L m"
    and k: "k = ''manifest_hash'' \<or> k = ''integrity_seal''"
    and v: "v \<noteq> stored_field (stored_field m ''integrity_seal'') k"
  shows "\<not> stored_seal_matches L (mutate_seal m k v)"
proof -
  from sm obtain kvs skvs where m: "m = JObj kvs" "map_of kvs ''integrity_seal'' = Some (JObj skvs)"
    using stored_seal_is_dict by blast
  show ?thesis
    using sm k v
    by (auto simp: stored_seal_matches_def mutate_seal_fingerprints mutate_seal_field[OF m]
        dest: py_eq_str_unique)
qed

lemma stored_seal_matches_demo_lib:
  "stored_seal_matches (demo_lib docs) m = stored_seal_matches (demo_lib []) m"
  by (simp add: stored_seal_matches_def demo_lib_def derive_secret_key_def)

lemma demo_manifest_sealed: "stored_seal_matches (demo_lib []) demo_manifest"
  by (simp add: stored_seal_matches_def demo_manifest_def scan_arcsec_files_def Let_def
      stored_field_def stored_fingerprints_def seal_dict_def generate_integrity_seal_def)

lemma demo_manifest_hash_not_forged:
  "JStr ''forged'' \<noteq> stored_field (stored_field demo_manifest ''integrity_seal'') ''manifest_hash''"
  by (simp add: demo_manifest_def scan_arcsec_files_def Let_def stored_field_def seal_dict_def
      generate_integrity_seal_def demo_lib_def)

lemma load_manifest_demo_site:
  "load_manifest (demo_lib [doc]) (demo_site doc fs) demo_manifest_file = Inr doc"
  by (simp add: load_manifest_def read_file_def demo_site_def demo_world_def demo_file_def
      demo_lib_def)

text \<open>
  C2. For every manifest file that loads and whose stored integrity seal does not match
  the seal recomputed from its fingerprint set, \<open>load_and_verify_manifest\<close> returns
  status \<open>MANIFEST_COMPROMISED\<close> with an empty set of per-file results: no file is
  reported \<open>VERIFIED\<close> or \<open>TAMPERED\<close>.
\<close>

theorem compromised_manifest_fails_fast:
  assumes "load_manifest L w mf = Inr m"
    and "\<not> stored_seal_matches L m"
  shows "lr_status (load_and_verify_manifest L w now mf) = ''MANIFEST_COMPROMISED'' \<and>
         lr_file_verifications (load_and_verify_manifest L w now mf) = Some []"
  using assms
  by (simp add: load_and_verify_manifest_def Let_def verify_manifest_verified)

text \<open>
  C2, an instance: the manifest of the example repository with a forged manifest hash.
\<close>

theorem compromised_manifest_fails_fast_witness:
  "load_manifest (demo_lib [mutate_seal demo_manifest ''manifest_hash'' (JStr ''forged'')])
     (demo_site (mutate_seal demo_manifest ''manifest_hash'' (JStr ''forged''))
        [(''./arcsec_x.py'', demo_file ''v1'' 100)])
     demo_manifest_file = Inr (mutate_seal demo_manifest ''manifest_hash'' (JStr ''forged'')) \<and>
   \<not> stored_seal_matches (demo_lib [mutate_seal demo_manifest ''manifest_hash'' (JStr ''forged'')])
     (mutate_seal demo_manifest ''manifest_hash'' (JStr ''forged'')) \<and>
   lr_status (load_and_verify_manifest
     (demo_lib [mutate_seal demo_manifest ''manifest_hash'' (JStr ''forged'')])
     (demo_site (mutate_seal demo_manifest ''manifest_hash'' (JStr ''forged''))
        [(''./arcsec_x.py'', demo_file ''v1'' 100)])
     2000 demo_manifest_file) = ''MANIFEST_COMPROMISED'' \<and>
   lr_file_verifications (load_and_verify_manifest
     (demo_lib [mutate_seal demo_manifest ''manifest_hash'' (JStr ''forged'')])
     (demo_site (mutate_seal demo_manifest ''manifest_hash'' (JStr ''forged''))
        [(''./arcsec_x.py'', demo_file ''v1'' 100)])
     2000 demo_manifest_file) = Some []"
proof -
  let ?m = "mutate_seal demo_manifest ''manifest_hash'' (JStr ''forged'')"
  let ?w = "demo_site ?m [(''./arcsec_x.py'', demo_file ''v1'' 100)]"
  have ld: "load_manifest (demo_lib [?m]) ?w demo_manifest_file = Inr ?m"
    by (rule load_manifest_demo_site)
  have "\<not> stored_seal_matches (demo_lib []) ?m"
    using mutate_seal_detected[OF demo_manifest_sealed _ demo_manifest_hash_not_forged] by simp
  then have bad: "\<not> stored_seal_matches (demo_lib [?m]) ?m"
    by (subst stored_seal_matches_demo_lib)
  note res = compromised_manifest_fails_fast[OF ld bad, of 2000]
  show ?thesis
    apply (intro conjI)
       apply (rule ld)
      apply (rule bad)
     apply (rule res[THEN conjunct1])
    apply (rule res[THEN conjunct2])
    done
qed

text \<open>
  C3, as amended. In a manifest that verifies, giving \<open>manifest_hash\<close> or
  \<open>integrity_seal\<close> of the stored seal a different value makes
  \<open>verify_manifest_integrity\<close> return \<open>MANIFEST_TAMPERED\<close>; giving any other field of the
  seal, \<open>timestamp\<close> and \<open>timestamp_proof\<close> among them, a new value leaves the result
  \<open>MANIFEST_VERIFIED\<close>.
\<close>

theorem seal_field_mutation:
  assumes ok: "mv_status (verify_manifest_integrity L now m) = ''MANIFEST_VERIFIED''"
  shows "(k = ''manifest_hash'' \<or> k = ''integrity_seal'' \<longrightarrow>
            v \<noteq> stored_field (stored_field m ''integrity_seal'') k \<longrightarrow>
            mv_status (verify_manifest_integrity L now' (mutate_seal m k v)) = ''MANIFEST_TAMPERED'') \<and>
         (k \<noteq> ''manifest_hash'' \<and> k \<noteq> ''integrity_seal'' \<longrightarrow>
            mv_status (verify_manifest_integrity L now' (mutate_seal m k v)) = ''MANIFEST_VERIFIED'')"
proof -
  from ok have sm: "stored_seal_matches L m" by (simp add: verify_manifest_status)
  then obtain kvs skvs where m: "m = JObj kvs" "map_of kvs ''integrity_seal'' = Some (JObj skvs)"
    using stored_seal_is_dict by blast
  note fld = mutate_seal_field[OF m] and dict = mutate_seal_still_dict[OF m]
  have other: "stored_seal_matches L (mutate_seal m k v)"
    if "k \<noteq> ''manifest_hash''" "k \<noteq> ''integrity_seal''"
    using sm that by (simp add: stored_seal_matches_def mutate_seal_fingerprints fld)
  have changed: "\<not> stored_seal_matches L (mutate_seal m k v)"
    if "k = ''manifest_hash'' \<or> k = ''integrity_seal''"
       "v \<noteq> stored_field (stored_field m ''integrity_seal'') k"
    using sm that
    by (auto simp: stored_seal_matches_def mutate_seal_fingerprints fld dest: py_eq_str_unique)
  show ?thesis
    using other changed verify_manifest_tampered[OF dict] verify_manifest_status by blast
qed

text \<open>
  C3, an instance: a forged manifest hash is detected, a changed \<open>sealed_by\<close> is not.
\<close>

theorem seal_field_mutation_witness:
  "mv_status (verify_manifest_integrity (demo_lib []) 2000 demo_manifest) = ''MANIFEST_VERIFIED'' \<and>
   JStr ''forged'' \<noteq> stored_field (stored_field demo_manifest ''integrity_seal'') ''manifest_hash'' \<and>
   mv_status (verify_manifest_integrity (demo_lib []) 3000
      (mutate_seal demo_manifest ''manifest_hash'' (JStr ''forged''))) = ''MANIFEST_TAMPERED'' \<and>
   mv_status (verify_manifest_integrity (demo_lib []) 3000
      (mutate_seal demo_manifest ''sealed_by'' (JStr ''nobody''))) = ''MANIFEST_VERIFIED''"
proof -
  have ok: "mv_status (verify_manifest_integrity (demo_lib []) 2000 demo_manifest) = ''MANIFEST_VERIFIED''"
    by (simp add: verify_manifest_status demo_manifest_sealed)
  have ne: "JStr ''forged'' \<noteq> stored_field (stored_field demo_manifest ''integrity_seal'') ''manifest_hash''"
    by (simp add: demo_manifest_def scan_arcsec_files_def Let_def stored_field_def seal_dict_def
        generate_integrity_seal_def demo_lib_def)
  show ?thesis
    using ok ne
      seal_field_mutation[OF ok, of "''manifest_hash''" "JStr ''forged''" 3000]
      seal_field_mutation[OF ok, of "''sealed_by''" "JStr ''nobody''" 3000]
    by simp
qed

text \<open>
  C3 as stated fails for the \<open>timestamp\<close> field: the manifest of the example repository
  still verifies after its seal's timestamp is changed.
\<close>

theorem timestamp_mutation_undetected:
  "mv_status (verify_manifest_integrity (demo_lib []) 2000 demo_manifest) = ''MANIFEST_VERIFIED'' \<and>
   JStr ''T9999'' \<noteq> stored_field (stored_field demo_manifest ''integrity_seal'') ''timestamp'' \<and>
   mv_status (verify_manifest_integrity (demo_lib []) 2000
      (mutate_seal demo_manifest ''timestamp'' (JStr ''T9999''))) = ''MANIFEST_VERIFIED''"
proof -
  have ok: "stored_seal_matches (demo_lib []) demo_manifest" by (rule demo_manifest_sealed)
  then obtain kvs skvs where m: "demo_manifest = JObj kvs" "map_of kvs ''integrity_seal'' = Some (JObj skvs)"
    using stored_seal_is_dict by blast
  have "stored_seal_matches (demo_lib []) (mutate_seal demo_manifest ''timestamp'' (JStr ''T9999''))"
    using ok by (simp add: stored_seal_matches_def mutate_seal_fingerprints mutate_seal_field[OF m])
  then have still: "mv_status (verify_manifest_integrity (demo_lib []) 2000
      (mutate_seal demo_manifest ''timestamp'' (JStr ''T9999''))) = ''MANIFEST_VERIFIED''"
    by (simp add: verify_manifest_status)
  have before: "mv_status (verify_manifest_integrity (demo_lib []) 2000 demo_manifest) = ''MANIFEST_VERIFIED''"
    using ok by (simp add: verify_manifest_status)
  have ne: "JStr ''T9999'' \<noteq> stored_field (stored_field demo_manifest ''integrity_seal'') ''timestamp''"
    by (simp add: demo_manifest_def scan_arcsec_files_def Let_def stored_field_def seal_dict_def
        generate_integrity_seal_def demo_lib_def decimal.simps)
  from before ne still show ?thesis by (intro conjI)
qed

section \<open>Properties: the content integrity check\<close>












section \<open>Properties: the manifest store\<close>













section \<open>Properties: the manifest builder\<close>

lemma scan_fold_keys:
  "fst ` set (foldl (\<lambda>fps p. AList.update p (g p) fps) acc ps) = fst ` set acc \<union> set ps"
  by (induction ps arbitrary: acc) (auto simp: dom_update)

lemma scan_fingerprints_keys: "fst ` set (scan_fingerprints L w now ps) = set ps"
  by (simp add: scan_fingerprints_def scan_fold_keys)

lemma scan_arcsec_files_fingerprints:
  "stored_field (scan_arcsec_files L w now root_directory) ''file_fingerprints''
     = JObj (scan_fingerprints L w now (scan_paths w root_directory))"
  by (simp add: scan_arcsec_files_def Let_def stored_field_def)

lemma scan_paths_iff:
  "p \<in> set (scan_paths w root_directory) \<longleftrightarrow>
   (\<exists>(r, ds, fs) \<in> set (os_walk w root_directory). \<exists>f \<in> set fs.
      p = os_path_join r f \<and> (startswith f ''arcsec'' \<or> startswith f ''ARCSEC''))"
proof
  assume "p \<in> set (scan_paths w root_directory)"
  then show "\<exists>(r, ds, fs) \<in> set (os_walk w root_directory). \<exists>f \<in> set fs.
      p = os_path_join r f \<and> (startswith f ''arcsec'' \<or> startswith f ''ARCSEC'')"
    by (auto simp: scan_paths_def is_scanned_name_def)
next
  assume "\<exists>(r, ds, fs) \<in> set (os_walk w root_directory). \<exists>f \<in> set fs.
      p = os_path_join r f \<and> (startswith f ''arcsec'' \<or> startswith f ''ARCSEC'')"
  then obtain r ds fs f where "(r, ds, fs) \<in> set (os_walk w root_directory)" "f \<in> set fs"
    "p = os_path_join r f" "startswith f ''arcsec'' \<or> startswith f ''ARCSEC''"
    by auto
  then show "p \<in> set (scan_paths w root_directory)"
    by (force simp: scan_paths_def is_scanned_name_def)
qed

text \<open>
  C6, as amended. For every root directory, a path is a key of the manifest's
  \<open>file_fingerprints\<close> if and only if it joins a directory that the walk lists with one of
  its file names that starts with exactly \<open>arcsec\<close> or exactly \<open>ARCSEC\<close>: the match is a
  case-sensitive prefix match on these two spellings.
\<close>

theorem scan_includes_marked_prefix:
  "\<exists>fps. stored_field (scan_arcsec_files L w now root_directory) ''file_fingerprints'' = JObj fps \<and>
     (\<forall>p. p \<in> fst ` set fps \<longleftrightarrow>
        (\<exists>(r, ds, fs) \<in> set (os_walk w root_directory). \<exists>f \<in> set fs.
           p = os_path_join r f \<and> (startswith f ''arcsec'' \<or> startswith f ''ARCSEC'')))"
  using scan_paths_iff[of _ w root_directory]
  by (simp add: scan_arcsec_files_fingerprints scan_fingerprints_keys)

text \<open>
  C6, an instance: of \<open>arcsec_x.py\<close>, \<open>ARCSEC_MAP.json\<close> and \<open>notes.txt\<close> in one directory, the
  first two are enumerated.
\<close>

theorem scan_includes_marked_prefix_witness:
  "\<exists>fps. stored_field
       (scan_arcsec_files (demo_lib [])
          (demo_world [(''./arcsec_x.py'', demo_file ''v1'' 100)]
             [''arcsec_x.py'', ''ARCSEC_MAP.json'', ''notes.txt'']) 1000 ''.'')
       ''file_fingerprints'' = JObj fps \<and>
     ''./arcsec_x.py'' \<in> fst ` set fps \<and> ''./ARCSEC_MAP.json'' \<in> fst ` set fps \<and>
     ''./notes.txt'' \<notin> fst ` set fps"
proof -
  let ?w = "demo_world [(''./arcsec_x.py'', demo_file ''v1'' 100)]
             [''arcsec_x.py'', ''ARCSEC_MAP.json'', ''notes.txt'']"
  from scan_includes_marked_prefix[of "demo_lib []" ?w 1000 "''.''"]
  obtain fps where fps:
    "stored_field (scan_arcsec_files (demo_lib []) ?w 1000 ''.'') ''file_fingerprints'' = JObj fps"
    and iff: "\<And>p. p \<in> fst ` set fps \<longleftrightarrow>
        (\<exists>(r, ds, fs) \<in> set (os_walk ?w ''.''). \<exists>f \<in> set fs.
           p = os_path_join r f \<and> (startswith f ''arcsec'' \<or> startswith f ''ARCSEC''))"
    by blast
  have "''./arcsec_x.py'' \<in> fst ` set fps"
    by (subst iff) (simp add: demo_world_def os_path_join_def endswith_def)
  moreover have "''./ARCSEC_MAP.json'' \<in> fst ` set fps"
    by (subst iff) (simp add: demo_world_def os_path_join_def endswith_def)
  moreover have "''./notes.txt'' \<notin> fst ` set fps"
    by (subst iff) (simp add: demo_world_def os_path_join_def endswith_def)
  ultimately show ?thesis using fps by blast
qed

text \<open>
  C6 as stated fails: \<open>Arcsec_x.py\<close> and \<open>my_arcsec.py\<close> both carry the marker under
  case-insensitive substring matching, and neither is enumerated.
\<close>

theorem scan_skips_mixed_case_and_substring:
  "contains (lower ''Arcsec_x.py'') ''arcsec'' \<and> contains (lower ''my_arcsec.py'') ''arcsec'' \<and>
   stored_field
     (scan_arcsec_files (demo_lib [])
        (demo_world [(''./Arcsec_x.py'', demo_file ''v1'' 100),
                     (''./my_arcsec.py'', demo_file ''v2'' 100)]
           [''Arcsec_x.py'', ''my_arcsec.py'']) 1000 ''.'')
     ''file_fingerprints'' = JObj []"
  by (simp add: scan_arcsec_files_fingerprints scan_fingerprints_def scan_paths_def
      is_scanned_name_def demo_world_def lower_def lower_char_def)

section \<open>Properties: the naming validator\<close>













section \<open>Properties: files under a services directory\<close>



section \<open>Properties: backup and restore\<close>

lemma copy2_keeps_mtime:
  assumes "copy2 w now src dst = Inr w'" and "map_of (files w) src = Some f"
  shows "\<exists>g. map_of (files w') dst = Some g \<and> content g = content f \<and> st_mtime g = st_mtime f"
  using assms
  by (auto simp: copy2_def read_file_def write_file_def update_conv'
      split: if_splits option.splits sum.splits)

lemma max_by_member: "max_by key b bs \<in> set (b # bs)"
  by (induction bs arbitrary: b) auto

lemma max_by_at_least_first: "key b \<le> key (max_by key b bs)"
proof (induction bs arbitrary: b)
  case Nil
  then show ?case by simp
next
  case (Cons a bs)
  from Cons[of a] Cons[of b] show ?case by (auto intro: order_trans less_imp_le)
qed

lemma max_by_greatest: "x \<in> set (b # bs) \<Longrightarrow> key x \<le> key (max_by key b bs)"
proof (induction bs arbitrary: b)
  case Nil
  then show ?case by simp
next
  case (Cons a bs)
  show ?case
  proof (cases "key b < key a")
    case True
    with Cons.prems Cons.IH[of a] max_by_at_least_first[of key a bs] show ?thesis
      by (auto intro: order_trans less_imp_le)
  next
    case False
    with Cons.prems Cons.IH[of b] max_by_at_least_first[of key b bs] show ?thesis
      by (auto intro: order_trans)
  qed
qed

lemma demo_backups_files:
  "files demo_backups =
     [(''arcsec_x.py'', demo_file ''v3'' 50),
      (''.arcsec_backups/arcsec_x.py.1000.backup'',
         \<lparr> content = ''v1'', st_ctime = 1000, st_mtime = 100, open_error = None \<rparr>),
      (''.arcsec_backups/arcsec_x.py.2000.backup'',
         \<lparr> content = ''v2'', st_ctime = 2000, st_mtime = 1500, open_error = None \<rparr>),
      (''.arcsec_backups/arcsec_x.py.3000.backup'',
         \<lparr> content = ''v3'', st_ctime = 3000, st_mtime = 50, open_error = None \<rparr>)]"
  by (simp add: demo_backups_def Let_def backup_file_def copy2_def read_file_def write_file_def
      demo_world_def demo_file_def demo_put_def demo_lib_def backup_dir_def path_name_def
      path_parts_def decimal.simps)

text \<open>
  C8, evaluated: of the snapshots taken at times 1000, 2000 and 3000, \<open>restore_file\<close>
  copies back the one taken at time 2000, which holds \<open>v2\<close>; the snapshot taken last
  holds \<open>v3\<close>.
\<close>

theorem restore_selects_by_source_mtime:
  "read_file demo_backups ''.arcsec_backups/arcsec_x.py.3000.backup'' = Inr ''v3'' \<and>
   fst (restore_file (demo_lib []) demo_backups 4000 ''arcsec_x.py'') = True \<and>
   read_file (snd (restore_file (demo_lib []) demo_backups 4000 ''arcsec_x.py'')) ''arcsec_x.py''
     = Inr ''v2''"
  by (simp add: restore_file_def glob_def copy2_def read_file_def write_file_def
      demo_backups_files demo_file_def demo_lib_def backup_dir_def path_name_def
      path_parts_def Let_def)

section \<open>Properties: deletion events\<close>

lemma deleted_event_not_enforced:
  assumes "event_type ev = ''deleted''" and "nr_valid (validate_arcsec_naming (src_path ev))"
  shows "on_any_event L now self w ev = (self, w)"
  using assms by (simp add: on_any_event_def enforce_protection_def Let_def)

lemma arcsec_x_valid: "nr_valid (validate_arcsec_naming ''./arcsec_x.py'')"
  by (simp add: validate_arcsec_naming_def is_arcsec_file_def naming_violations_def Let_def
      path_name_def path_parent_name_def path_parts_def lower_def lower_char_def
      prefix_required_def extensions_def endswith_def allowed_char_def isalnum_def
      allowed_separators_def)

text \<open>
  C9, evaluated: \<open>./arcsec_x.py\<close> is tracked by the manifest and has been deleted. The
  handler of the deletion event leaves the injector and the file system as they were:
  no violation is logged, no snapshot is taken and the file is not put back.
\<close>

theorem deletion_event_has_no_response:
  "tracked_fingerprint (demo_lib [demo_manifest]) (demo_site demo_manifest []) demo_manifest_file
     ''./arcsec_x.py'' \<noteq> None \<and>
   \<not> exists (demo_site demo_manifest []) ''./arcsec_x.py'' \<and>
   on_any_event (demo_lib [demo_manifest]) 5000 demo_injector (demo_site demo_manifest [])
     \<lparr> is_directory = False, src_path = ''./arcsec_x.py'', event_type = ''deleted'' \<rparr>
     = (demo_injector, demo_site demo_manifest [])"
proof -
  have "load_manifest (demo_lib [demo_manifest]) (demo_site demo_manifest []) demo_manifest_file
      = Inr demo_manifest"
    by (rule load_manifest_demo_site)
  then have 1: "tracked_fingerprint (demo_lib [demo_manifest]) (demo_site demo_manifest [])
      demo_manifest_file ''./arcsec_x.py'' \<noteq> None"
    by (simp add: tracked_fingerprint_def)
       (simp add: demo_manifest_def scan_arcsec_files_def Let_def scan_fingerprints_def
          scan_paths_def is_scanned_name_def demo_world_def os_path_join_def endswith_def)
  have 2: "\<not> exists (demo_site demo_manifest []) ''./arcsec_x.py''"
    by (simp add: exists_def demo_site_def demo_world_def demo_manifest_file_def)
  have 3: "on_any_event (demo_lib [demo_manifest]) 5000 demo_injector (demo_site demo_manifest [])
     \<lparr> is_directory = False, src_path = ''./arcsec_x.py'', event_type = ''deleted'' \<rparr>
     = (demo_injector, demo_site demo_manifest [])"
    by (rule deleted_event_not_enforced) (simp_all add: arcsec_x_valid)
  from 1 2 3 show ?thesis by (intro conjI)
qed

end
